theory Spec2Isabelle
  imports Main
begin

section \<open>Python values and exceptions\<close>

text \<open>
  The repository is Python. Exceptions are values: every function that can raise returns
  a sum whose left summand is the exception. \<open>HTTPException\<close> carries the status code and
  the detail string the source passes (the response headers are left out).
\<close>

datatype exn =
    TypeError
  | ValueError
  | AttributeError
  | NameError
  | JWTError
  | HTTPException nat string

text \<open>
  Times are integers counting microseconds, the resolution of Python's \<open>datetime\<close>:
  a \<open>datetime\<close> is the number of microseconds since the epoch, a \<open>timedelta\<close> a signed
  number of microseconds. The range limits of both types are not modelled.
\<close>

type_synonym usec = int

definition seconds :: "int \<Rightarrow> usec" where
  "seconds n = n * 1000000"

definition minutes :: "int \<Rightarrow> usec" where
  "minutes n = seconds (n * 60)"

definition days :: "int \<Rightarrow> usec" where
  "days n = seconds (n * 86400)"

text \<open>
  The values the rate strategies compute with. The operators follow Python: arithmetic
  and comparison are defined between two numbers, between two \<open>datetime\<close>s, between two
  \<open>timedelta\<close>s and for the mixed pairs listed; every other pair raises \<open>TypeError\<close>.
  Numbers are Python integers (a float rate takes the same branches: a \<open>timedelta\<close>
  times a float is again a \<open>timedelta\<close>).
\<close>

datatype pyval = PyInt int | Datetime usec | Timedelta usec

fun py_add :: "pyval \<Rightarrow> pyval \<Rightarrow> exn + pyval" where
  "py_add (PyInt a) (PyInt b) = Inr (PyInt (a + b))"
| "py_add (Datetime a) (Timedelta b) = Inr (Datetime (a + b))"
| "py_add (Timedelta a) (Datetime b) = Inr (Datetime (a + b))"
| "py_add (Timedelta a) (Timedelta b) = Inr (Timedelta (a + b))"
| "py_add _ _ = Inl TypeError"

fun py_sub :: "pyval \<Rightarrow> pyval \<Rightarrow> exn + pyval" where
  "py_sub (PyInt a) (PyInt b) = Inr (PyInt (a - b))"
| "py_sub (Datetime a) (Datetime b) = Inr (Timedelta (a - b))"
| "py_sub (Datetime a) (Timedelta b) = Inr (Datetime (a - b))"
| "py_sub (Timedelta a) (Timedelta b) = Inr (Timedelta (a - b))"
| "py_sub _ _ = Inl TypeError"

fun py_mul :: "pyval \<Rightarrow> pyval \<Rightarrow> exn + pyval" where
  "py_mul (PyInt a) (PyInt b) = Inr (PyInt (a * b))"
| "py_mul (Timedelta a) (PyInt b) = Inr (Timedelta (a * b))"
| "py_mul (PyInt a) (Timedelta b) = Inr (Timedelta (a * b))"
| "py_mul _ _ = Inl TypeError"

fun py_lt :: "pyval \<Rightarrow> pyval \<Rightarrow> exn + bool" where
  "py_lt (PyInt a) (PyInt b) = Inr (a < b)"
| "py_lt (Datetime a) (Datetime b) = Inr (a < b)"
| "py_lt (Timedelta a) (Timedelta b) = Inr (a < b)"
| "py_lt _ _ = Inl TypeError"

definition py_gt :: "pyval \<Rightarrow> pyval \<Rightarrow> exn + bool" where
  "py_gt a b = py_lt b a"

fun py_ge :: "pyval \<Rightarrow> pyval \<Rightarrow> exn + bool" where
  "py_ge (PyInt a) (PyInt b) = Inr (a \<ge> b)"
| "py_ge (Datetime a) (Datetime b) = Inr (a \<ge> b)"
| "py_ge (Timedelta a) (Timedelta b) = Inr (a \<ge> b)"
| "py_ge _ _ = Inl TypeError"

text \<open>
  Sequencing of expressions that may raise: the first exception ends the evaluation.
\<close>

definition and_then :: "exn + 'a \<Rightarrow> ('a \<Rightarrow> exn + 'b) \<Rightarrow> exn + 'b" where
  "and_then r f = (case r of Inl e \<Rightarrow> Inl e | Inr v \<Rightarrow> f v)"

text \<open>\<open>min(a, b)\<close> keeps \<open>a\<close> unless \<open>b < a\<close>.\<close>

definition py_min :: "pyval \<Rightarrow> pyval \<Rightarrow> exn + pyval" where
  "py_min a b = and_then (py_lt b a) (\<lambda>c. Inr (if c then b else a))"

text \<open>\<open>int(x)\<close>: defined on numbers only.\<close>

fun py_int :: "pyval \<Rightarrow> exn + int" where
  "py_int (PyInt a) = Inr a"
| "py_int _ = Inl TypeError"

section \<open>Rate strategy library (PlayersService/Utils/limiter\_strategies.py)\<close>

text \<open>
  \<open>current_time()\<close> returns \<open>datetime.datetime.now(datetime.timezone.utc)\<close>: a
  \<open>datetime\<close>. The argument is the reading of the wall clock at the call.
\<close>

definition current_time :: "usec \<Rightarrow> pyval" where
  "current_time t = Datetime t"

subsection \<open>TokenBucket\<close>

record TokenBucket =
  capacity :: pyval
  tokens :: pyval
  refill_rate :: pyval
  last_refill_timestamp :: pyval

definition TokenBucket_init :: "pyval \<Rightarrow> pyval \<Rightarrow> usec \<Rightarrow> TokenBucket" where
  "TokenBucket_init cap rate t =
     \<lparr>capacity = cap, tokens = cap, refill_rate = rate, last_refill_timestamp = current_time t\<rparr>"

text \<open>
  \<open>refill_tokens\<close> assigns its two fields only after every expression has been
  evaluated, so a raise leaves the object as it was.
\<close>

definition refill_tokens :: "TokenBucket \<Rightarrow> usec \<Rightarrow> exn + TokenBucket" where
  "refill_tokens b t =
     (let now = current_time t in
      and_then (py_sub now (last_refill_timestamp b)) (\<lambda>elapsed.
      and_then (py_mul elapsed (refill_rate b)) (\<lambda>tokens_to_add.
      and_then (py_add (tokens b) tokens_to_add) (\<lambda>s.
      and_then (py_min (capacity b) s) (\<lambda>m.
      Inr (b\<lparr>tokens := m, last_refill_timestamp := now\<rparr>))))))"

text \<open>
  An \<open>allow_request\<close> call returns what the call evaluates to (a boolean, or the
  exception it raises) and the object after the call.
\<close>

definition TokenBucket_allow_request :: "TokenBucket \<Rightarrow> usec \<Rightarrow> (exn + bool) \<times> TokenBucket" where
  "TokenBucket_allow_request b t =
     (case refill_tokens b t of
        Inl e \<Rightarrow> (Inl e, b)
      | Inr b1 \<Rightarrow>
         (case py_gt (tokens b1) (PyInt 0) of
            Inl e \<Rightarrow> (Inl e, b1)
          | Inr positive \<Rightarrow>
             (if positive then
                (case py_sub (tokens b1) (PyInt 1) of
                   Inl e \<Rightarrow> (Inl e, b1)
                 | Inr v \<Rightarrow> (Inr True, b1\<lparr>tokens := v\<rparr>))
              else (Inr False, b1))))"

subsection \<open>LeakyBucket\<close>

record 'r LeakyBucket =
  lb_capacity :: pyval
  leak_rate :: pyval
  queue :: "'r list"
  last_leak_timestamp :: pyval

definition LeakyBucket_init :: "pyval \<Rightarrow> pyval \<Rightarrow> usec \<Rightarrow> 'r LeakyBucket" where
  "LeakyBucket_init cap rate t =
     \<lparr>lb_capacity = cap, leak_rate = rate, queue = [], last_leak_timestamp = current_time t\<rparr>"

text \<open>The loop \<open>for _ in range(n): if self.queue: self.queue.pop(0)\<close>.\<close>

fun pop_front :: "nat \<Rightarrow> 'r list \<Rightarrow> 'r list" where
  "pop_front 0 q = q"
| "pop_front (Suc n) q = pop_front n (case q of [] \<Rightarrow> [] | _ # rest \<Rightarrow> rest)"

definition leak :: "'r LeakyBucket \<Rightarrow> usec \<Rightarrow> exn + 'r LeakyBucket" where
  "leak b t =
     (let now = current_time t in
      and_then (py_sub now (last_leak_timestamp b)) (\<lambda>elapsed.
      and_then (py_mul elapsed (leak_rate b)) (\<lambda>leaks.
      and_then (py_int leaks) (\<lambda>n.
      Inr (b\<lparr>queue := pop_front (nat n) (queue b), last_leak_timestamp := now\<rparr>)))))"

definition LeakyBucket_allow_request ::
  "'r LeakyBucket \<Rightarrow> 'r \<Rightarrow> usec \<Rightarrow> (exn + bool) \<times> 'r LeakyBucket" where
  "LeakyBucket_allow_request b request t =
     (case leak b t of
        Inl e \<Rightarrow> (Inl e, b)
      | Inr b1 \<Rightarrow>
         (case py_lt (PyInt (int (length (queue b1)))) (lb_capacity b1) of
            Inl e \<Rightarrow> (Inl e, b1)
          | Inr room \<Rightarrow>
             (if room then (Inr True, b1\<lparr>queue := queue b1 @ [request]\<rparr>)
              else (Inr False, b1))))"

subsection \<open>FixedWindow\<close>

record FixedWindow =
  limit :: pyval
  window_size :: pyval
  counter :: pyval
  window_start :: pyval

definition FixedWindow_init :: "pyval \<Rightarrow> pyval \<Rightarrow> usec \<Rightarrow> FixedWindow" where
  "FixedWindow_init lim wsize t =
     \<lparr>limit = lim, window_size = wsize, counter = PyInt 0, window_start = current_time t\<rparr>"

text \<open>
  \<open>allow_request\<close> reads the clock in its condition (reading \<open>t\<close>) and, when the window
  is over, a second time for the new \<open>window_start\<close> (reading \<open>t'\<close>).
\<close>

definition FixedWindow_allow_request ::
  "FixedWindow \<Rightarrow> usec \<Rightarrow> usec \<Rightarrow> (exn + bool) \<times> FixedWindow" where
  "FixedWindow_allow_request w t t' =
     (case and_then (py_add (window_start w) (window_size w)) (py_ge (current_time t)) of
        Inl e \<Rightarrow> (Inl e, w)
      | Inr over \<Rightarrow>
         (if over then (Inr True, w\<lparr>window_start := current_time t', counter := PyInt 1\<rparr>)
          else
            (case py_lt (counter w) (limit w) of
               Inl e \<Rightarrow> (Inl e, w)
             | Inr below \<Rightarrow>
                (if below then
                   (case py_add (counter w) (PyInt 1) of
                      Inl e \<Rightarrow> (Inl e, w)
                    | Inr c \<Rightarrow> (Inr True, w\<lparr>counter := c\<rparr>))
                 else (Inr False, w)))))"

subsection \<open>Reachable limiter states\<close>

text \<open>
  The states of a bucket that a program can observe: the one the constructor builds and
  the one every \<open>allow_request\<close> call leaves behind, whether it returns or raises.
\<close>

inductive TokenBucket_reachable :: "TokenBucket \<Rightarrow> bool" where
  TokenBucket_constructed: "TokenBucket_reachable (TokenBucket_init cap rate t)"
| TokenBucket_called:
    "TokenBucket_reachable b \<Longrightarrow> TokenBucket_reachable (snd (TokenBucket_allow_request b t))"

inductive LeakyBucket_reachable :: "'r LeakyBucket \<Rightarrow> bool" where
  LeakyBucket_constructed: "LeakyBucket_reachable (LeakyBucket_init cap rate t)"
| LeakyBucket_called:
    "LeakyBucket_reachable b \<Longrightarrow> LeakyBucket_reachable (snd (LeakyBucket_allow_request b r t))"

section \<open>The shared counter store (PlayersService/main.py)\<close>

text \<open>
  The Redis client is an external collaborator. A key holds a value and, optionally, the
  instant at which it expires; a key reads as absent once the clock has passed that
  instant. The commands the source
  issues are \<open>GET\<close>, \<open>INCR\<close>, \<open>EXPIRE key seconds\<close> and \<open>SET key value EX seconds\<close>.
  Each call of the source reads the clock once; the store is consulted at that instant.
\<close>

type_synonym 'v redis = "string \<rightharpoonup> 'v \<times> usec option"

definition live :: "usec \<Rightarrow> 'v \<times> usec option \<Rightarrow> bool" where
  "live now entry = (case snd entry of None \<Rightarrow> True | Some deadline \<Rightarrow> now \<le> deadline)"

definition redis_get :: "'v redis \<Rightarrow> usec \<Rightarrow> string \<Rightarrow> 'v option" where
  "redis_get r now key =
     (case r key of
        None \<Rightarrow> None
      | Some entry \<Rightarrow> (if live now entry then Some (fst entry) else None))"

definition redis_incr :: "int redis \<Rightarrow> usec \<Rightarrow> string \<Rightarrow> int redis" where
  "redis_incr r now key =
     (case r key of
        None \<Rightarrow> r(key \<mapsto> (1, None))
      | Some entry \<Rightarrow>
          (if live now entry then r(key \<mapsto> (fst entry + 1, snd entry))
           else r(key \<mapsto> (1, None))))"

definition redis_expire :: "'v redis \<Rightarrow> usec \<Rightarrow> string \<Rightarrow> int \<Rightarrow> 'v redis" where
  "redis_expire r now key secs =
     (case r key of
        None \<Rightarrow> r
      | Some entry \<Rightarrow>
          (if live now entry then
             (if secs \<le> 0 then r(key := None)
              else r(key \<mapsto> (fst entry, Some (now + seconds secs))))
           else r))"

definition redis_set :: "'v redis \<Rightarrow> usec \<Rightarrow> string \<Rightarrow> 'v \<Rightarrow> int \<Rightarrow> 'v redis" where
  "redis_set r now key v ex = r(key \<mapsto> (v, Some (now + seconds ex)))"

subsection \<open>check\_rate\_limit\<close>

definition RATE_LIMIT :: int where
  "RATE_LIMIT = 5"

definition RATE_PERIOD :: int where
  "RATE_PERIOD = 60"

text \<open>
  The counter is kept by Redis as a decimal string that \<open>INCR\<close> writes and \<open>int()\<close>
  reads back; the model stores the integer. \<open>current\<close> is falsy exactly when the key is
  absent (a stored counter is a non-empty string). The pipeline runs \<open>INCR\<close>, then
  \<open>EXPIRE\<close>.
\<close>

definition check_rate_limit :: "int redis \<Rightarrow> usec \<Rightarrow> string \<Rightarrow> bool \<times> int redis" where
  "check_rate_limit redis now ip =
     (let key = ''rate_limit:'' @ ip;
          current = redis_get redis now key
      in if (case current of None \<Rightarrow> False | Some c \<Rightarrow> c \<ge> RATE_LIMIT) then (False, redis)
         else (True, redis_expire (redis_incr redis now key) now key RATE_PERIOD))"

subsection \<open>check\_throttle\<close>

text \<open>
  The three throttle constants of the module are the fields of a configuration, so that
  properties can be stated for every value of them; \<open>main_config\<close> holds the values the
  source assigns.
\<close>

record throttle_config =
  THROTTLE_LIMIT :: int
  THROTTLE_PERIOD :: int
  COOLDOWN_PERIOD :: int

definition main_config :: throttle_config where
  "main_config = \<lparr>THROTTLE_LIMIT = 5, THROTTLE_PERIOD = 60, COOLDOWN_PERIOD = 30\<rparr>"

text \<open>The \<open>seconds\<close> attribute of a \<open>timedelta\<close>: the whole seconds within the day.\<close>

definition timedelta_seconds :: "usec \<Rightarrow> int" where
  "timedelta_seconds d = (d div 1000000) mod 86400"

text \<open>
  The stored value is the string \<open>f"{count}:{reset_time}"\<close>; the model keeps the pair
  \<open>(count, reset_time)\<close>, which \<open>split(":", 1)\<close> and \<open>float\<close> recover from it. The count
  read back is never used: both paths that go on assign \<open>count = 0\<close> first, so the
  counts are the integers 0 and 1 throughout.

  Line 108 parses the reset time with \<open>datetime.strptime(reset_time, fmt)\<close>, where
  \<open>datetime\<close> is the module imported on line 2. The module has no attribute
  \<open>strptime\<close>, so the call as written raises \<open>AttributeError\<close>
  (\<open>strptime_module\<close>). The call that was meant, \<open>datetime.datetime.strptime\<close>, parses
  what \<open>str\<close> printed, and fails with \<open>ValueError\<close> on a time with no microseconds,
  which \<open>str\<close> prints without the fraction that the format demands (\<open>strptime_class\<close>).
  \<open>check_throttle\<close> takes the meaning of that call as its first argument, so a property
  can be stated for the source as written, for the call that was meant, or for both.
\<close>

definition strptime_module :: "usec \<Rightarrow> exn + usec" where
  "strptime_module reset_time = Inl AttributeError"

definition strptime_class :: "usec \<Rightarrow> exn + usec" where
  "strptime_class reset_time =
     (if reset_time mod 1000000 = 0 then Inl ValueError else Inr reset_time)"

text \<open>
  Lines 105 to 121: what the stored record means for this request (\<open>now\<close> is the
  source's local \<open>current_time\<close>). The result is the
  exception raised, or \<open>Inl\<close> of the remaining cooldown when the request is rejected on
  line 112, or \<open>Inr\<close> of the count and reset time the request goes on with.
\<close>

definition throttle_window ::
  "(usec \<Rightarrow> exn + usec) \<Rightarrow> throttle_config \<Rightarrow> (int \<times> usec) option \<Rightarrow> usec
     \<Rightarrow> exn + (usec + int \<times> usec)" where
  "throttle_window strptime cfg current now =
     (case current of
        Some (count, reset_str) \<Rightarrow>
          and_then (strptime reset_str) (\<lambda>reset_time.
            if now < reset_time then Inr (Inl (reset_time - now))
            else Inr (Inr (if now \<ge> reset_time then 0 else count, reset_time)))
      | None \<Rightarrow> Inr (Inr (0, now + seconds (THROTTLE_PERIOD cfg))))"

text \<open>
  The whole function: the value returned (\<open>(True, None)\<close>, or \<open>False\<close> with the
  remaining cooldown) or the exception raised, and the store after the call.
\<close>

definition check_throttle ::
  "(usec \<Rightarrow> exn + usec) \<Rightarrow> throttle_config \<Rightarrow> (int \<times> usec) redis \<Rightarrow> usec \<Rightarrow> string
     \<Rightarrow> (exn + bool \<times> usec option) \<times> (int \<times> usec) redis" where
  "check_throttle strptime cfg redis now ip =
     (let key = ''throttle:'' @ ip;
          current = redis_get redis now key
      in case throttle_window strptime cfg current now of
           Inl e \<Rightarrow> (Inl e, redis)
         | Inr (Inl remaining) \<Rightarrow> (Inr (False, Some remaining), redis)
         | Inr (Inr (count0, reset_time0)) \<Rightarrow>
             (let count1 = count0 + 1;
                  exceeded = (count1 > THROTTLE_LIMIT cfg);
                  reset_time = (if exceeded then now + seconds (COOLDOWN_PERIOD cfg)
                                else reset_time0);
                  count = (if exceeded then 0 else count1)
              in (Inr (True, None),
                  redis_set redis now key (count, reset_time)
                    (max (timedelta_seconds (reset_time - now)) 1))))"


section \<open>Token lifecycle (Common/in\_jwt\_auth.py)\<close>

subsection \<open>Strings read as integers\<close>

text \<open>
  \<open>int(s)\<close> on a string: surrounding whitespace is dropped, one sign may lead, and the
  rest is decimal digits, where single underscores may stand between digits. Anything
  else raises \<open>ValueError\<close> (the result \<open>None\<close> here). Strings are ASCII.
\<close>

definition is_space :: "char \<Rightarrow> bool" where
  "is_space c = (c \<in> set [CHR '' '', CHR 0x09, CHR 0x0A, CHR 0x0B, CHR 0x0C, CHR 0x0D])"

definition strip :: "string \<Rightarrow> string" where
  "strip s = rev (dropWhile is_space (rev (dropWhile is_space s)))"

definition is_digit :: "char \<Rightarrow> bool" where
  "is_digit c = (48 \<le> (of_char c :: nat) \<and> (of_char c :: nat) \<le> 57)"

definition digit_value :: "char \<Rightarrow> int" where
  "digit_value c = int (of_char c) - 48"

fun digits_value :: "int \<Rightarrow> string \<Rightarrow> int option" where
  "digits_value acc [] = Some acc"
| "digits_value acc (c # cs) =
     (if is_digit c then digits_value (10 * acc + digit_value c) cs
      else if c = CHR ''_'' then
        (case cs of
           [] \<Rightarrow> None
         | d # _ \<Rightarrow> (if is_digit d then digits_value acc cs else None))
      else None)"

definition unsigned_value :: "string \<Rightarrow> int option" where
  "unsigned_value s =
     (case s of
        [] \<Rightarrow> None
      | c # _ \<Rightarrow> (if is_digit c then digits_value 0 s else None))"

definition py_int_of_str :: "string \<Rightarrow> int option" where
  "py_int_of_str s =
     (case strip s of
        [] \<Rightarrow> None
      | c # cs \<Rightarrow>
          (if c = CHR ''-'' then map_option uminus (unsigned_value cs)
           else if c = CHR ''+'' then unsigned_value cs
           else unsigned_value (c # cs)))"

subsection \<open>Claims and tokens\<close>

text \<open>
  A claims set is a Python dict with string keys, kept as an association list in
  insertion order; the values that occur are integers and strings.
\<close>

datatype jval = JInt int | JStr string

type_synonym claims = "(string \<times> jval) list"

definition dict_get :: "claims \<Rightarrow> string \<Rightarrow> jval option" where
  "dict_get d k = map_of d k"

fun dict_update :: "claims \<Rightarrow> string \<Rightarrow> jval \<Rightarrow> claims" where
  "dict_update [] k v = [(k, v)]"
| "dict_update ((k', v') # d) k v =
     (if k' = k then (k, v) # d else (k', v') # dict_update d k v)"

text \<open>
  The token library (python-jose) is an external collaborator, modelled at its
  boundary. A header value is either the compact serialisation of a claims set signed
  with some key (\<open>Jws key claims\<close>), or any other string (\<open>Opaque s\<close>, the empty string
  included). \<open>jwt.encode\<close> signs; it writes a \<open>datetime\<close> under \<open>exp\<close> as whole seconds
  since the epoch (\<open>timegm\<close>), which \<open>create_access_token\<close> below does when it stores the
  expiry. \<open>jwt.decode\<close> fails closed with a \<open>JWTError\<close> when the string is no token, when
  the signature was not made with the key, when \<open>exp\<close> is no integer or lies before the
  current second, and when \<open>sub\<close> is present and no string; otherwise it returns
  the claims. The registered claims the source never writes (\<open>nbf\<close>, \<open>iat\<close>, \<open>aud\<close>,
  \<open>iss\<close>, \<open>jti\<close>) are not modelled.
\<close>

datatype token = Jws string claims | Opaque string

definition timegm :: "usec \<Rightarrow> int" where
  "timegm t = t div 1000000"

definition jwt_encode :: "claims \<Rightarrow> string \<Rightarrow> token" where
  "jwt_encode to_encode key = Jws key to_encode"

definition exp_valid :: "claims \<Rightarrow> usec \<Rightarrow> bool" where
  "exp_valid payload now =
     (case dict_get payload ''exp'' of
        None \<Rightarrow> True
      | Some (JInt e) \<Rightarrow> timegm now \<le> e
      | Some (JStr s) \<Rightarrow> (case py_int_of_str s of None \<Rightarrow> False | Some e \<Rightarrow> timegm now \<le> e))"

definition sub_valid :: "claims \<Rightarrow> bool" where
  "sub_valid payload =
     (case dict_get payload ''sub'' of
        None \<Rightarrow> True
      | Some (JStr s) \<Rightarrow> True
      | Some (JInt n) \<Rightarrow> False)"

definition jwt_decode :: "token \<Rightarrow> string \<Rightarrow> usec \<Rightarrow> exn + claims" where
  "jwt_decode tok key now =
     (case tok of
        Opaque s \<Rightarrow> Inl JWTError
      | Jws k payload \<Rightarrow>
          (if k = key \<and> exp_valid payload now \<and> sub_valid payload then Inr payload
           else Inl JWTError))"

text \<open>\<open>not x\<close> on a header value: true of the empty string only.\<close>

definition falsy :: "token \<Rightarrow> bool" where
  "falsy tok = (tok = Opaque [])"

subsection \<open>Configuration and stored users\<close>

text \<open>
  \<open>in_config.py\<close> is not among the sources: the values the module imports from it are
  the fields of a configuration. \<open>ALGORITHM\<close> only selects the signature scheme.

  \<open>JWT_RATE_LIMIT\<close> is the binding of the global name \<open>RATE_LIMIT\<close> that line 167 of
  \<open>get_current_user\<close> reads. The module neither defines nor imports that name (the
  only \<open>RATE_LIMIT\<close> of the repository belongs to \<open>PlayersService/main.py\<close>): as
  shipped the name is unbound, which is the value \<open>None\<close>, and reading it raises
  \<open>NameError\<close>. \<open>Some n\<close> stands for a module in which the name has been bound to the
  ceiling \<open>n\<close>.
\<close>

record jwt_config =
  SECRET_KEY :: string
  ACCESS_TOKEN_EXPIRE_MINUTES :: int
  REFRESH_TOKEN_EXPIRE_DAYS :: int
  JWT_RATE_LIMIT :: "int option"

text \<open>
  Modelled from the spec: \<open>in_models.py\<close>, which declares the stored user \<open>DBUser\<close>, is
  not among the sources. The spec's Credential has \<open>userId\<close>, \<open>username\<close> and
  \<open>hashedPassword\<close>; the source reads \<open>user.username\<close> and \<open>user.hashed_password\<close>. A
  session is the lookup by primary key, \<open>session.get(DBUser, key)\<close>.
\<close>

record DBUser =
  userId :: int
  username :: string
  hashed_password :: string

type_synonym session = "int \<rightharpoonup> DBUser"

record Token =
  access_token :: token
  refresh_token :: token
  token_type :: string

text \<open>
  What \<open>get_current_user\<close> returns: the object built by \<open>User(**user.model_dump())\<close>
  from the stored user (the construction is taken to succeed; what it copies depends on
  the absent \<open>in_models.py\<close>). \<open>User\<close> is the pydantic model of \<open>in_schemas.py\<close>,
  whose fields are \<open>userId\<close>, \<open>userName\<close>, \<open>fullName\<close>, \<open>email\<close> and \<open>token\<close>: it
  has no field \<open>access_token\<close> or \<open>refresh_token\<close>, and a pydantic model refuses the
  assignment of an attribute it does not declare with \<open>ValueError\<close>.
\<close>

record User =
  db_user :: DBUser

subsection \<open>Issue\<close>

text \<open>\<open>if expires_delta:\<close> is false for \<open>None\<close> and for the zero \<open>timedelta\<close>.\<close>

definition create_access_token :: "jwt_config \<Rightarrow> usec \<Rightarrow> claims \<Rightarrow> usec option \<Rightarrow> token" where
  "create_access_token cfg now data expires_delta =
     (let expire =
            (case expires_delta of
               None \<Rightarrow> now + minutes (ACCESS_TOKEN_EXPIRE_MINUTES cfg)
             | Some d \<Rightarrow>
                 (if d \<noteq> 0 then now + d else now + minutes (ACCESS_TOKEN_EXPIRE_MINUTES cfg)));
          to_encode = dict_update data ''exp'' (JInt (timegm expire))
      in jwt_encode to_encode (SECRET_KEY cfg))"

definition create_refresh_token :: "jwt_config \<Rightarrow> usec \<Rightarrow> claims \<Rightarrow> usec option \<Rightarrow> token" where
  "create_refresh_token cfg now data expires_delta =
     (let expire =
            (case expires_delta of
               None \<Rightarrow> now + days (REFRESH_TOKEN_EXPIRE_DAYS cfg)
             | Some d \<Rightarrow>
                 (if d \<noteq> 0 then now + d else now + days (REFRESH_TOKEN_EXPIRE_DAYS cfg)));
          to_encode = dict_update data ''exp'' (JInt (timegm expire))
      in jwt_encode to_encode (SECRET_KEY cfg))"

text \<open>
  \<open>verify_password\<close> delegates to the password-hashing library; it is a parameter.
\<close>

definition authenticate_user ::
  "(string \<Rightarrow> string \<Rightarrow> bool) \<Rightarrow> jwt_config \<Rightarrow> session \<Rightarrow> usec \<Rightarrow> int \<Rightarrow> string \<Rightarrow> exn + Token" where
  "authenticate_user verify_password cfg session now user_id password =
     (case session user_id of
        None \<Rightarrow> Inl (HTTPException 401 ''Incorrect username or password'')
      | Some user \<Rightarrow>
          (if verify_password password (hashed_password user) then
             Inr \<lparr>access_token =
                    create_access_token cfg now
                      [(''sub'', JStr (username user)), (''req_count'', JInt 0)]
                      (Some (minutes (ACCESS_TOKEN_EXPIRE_MINUTES cfg))),
                  refresh_token =
                    create_refresh_token cfg now
                      [(''sub'', JStr (username user)), (''req_count'', JInt 0)]
                      (Some (days (REFRESH_TOKEN_EXPIRE_DAYS cfg))),
                  token_type = ''JWT''\<rparr>
           else Inl (HTTPException 401 ''Incorrect username or password'')))"

subsection \<open>Validate\<close>

text \<open>
  A call is recorded by the library and store calls it makes, in order: decoding the
  access token (line 164), decoding the refresh token (line 183), minting an access
  token (line 193: the claims handed to \<open>create_access_token\<close> and the token it
  returns), and looking a user up (line 207).
\<close>

datatype event =
    DecodeAccessToken
  | DecodeRefreshToken
  | CreateAccessToken claims token
  | SessionGet int

text \<open>
  \<open>req_count > RATE_LIMIT\<close>: the operands are evaluated first, and reading the unbound
  global raises \<open>NameError\<close>. With the name bound, \<open>payload.get("req_count")\<close> is
  \<open>None\<close> when the claim is absent, and Python orders neither \<open>None\<close> nor a string
  against an integer.
\<close>

definition req_count_exceeds :: "jval option \<Rightarrow> int option \<Rightarrow> exn + bool" where
  "req_count_exceeds req_count rate_limit =
     (case rate_limit of
        None \<Rightarrow> Inl NameError
      | Some ceiling \<Rightarrow>
          (case req_count of
             None \<Rightarrow> Inl TypeError
           | Some (JInt n) \<Rightarrow> Inr (n > ceiling)
           | Some (JStr s) \<Rightarrow> Inl TypeError))"

text \<open>\<open>int(username)\<close>: the identity on an integer, the parse of a string.\<close>

definition int_of_jval :: "jval \<Rightarrow> exn + int" where
  "int_of_jval v =
     (case v of
        JInt n \<Rightarrow> Inr n
      | JStr s \<Rightarrow> (case py_int_of_str s of None \<Rightarrow> Inl ValueError | Some n \<Rightarrow> Inr n))"

text \<open>
  Lines 205 to 218: the subject is resolved to a stored user. When a new access token has
  been minted, line 215 assigns it to \<open>user.access_token\<close>, an attribute the \<open>User\<close>
  model does not declare: the assignment raises \<open>ValueError\<close> and nothing is returned.
\<close>

definition resolve_user ::
  "session \<Rightarrow> jval \<Rightarrow> token option \<Rightarrow> token \<Rightarrow> event list \<Rightarrow> (exn + User) \<times> event list" where
  "resolve_user session username' new_access_token x_refresh_token log =
     (case int_of_jval username' of
        Inl e \<Rightarrow> (Inl e, log)
      | Inr key \<Rightarrow>
          (case session key of
             None \<Rightarrow> (Inl (HTTPException 401 ''Could not validate credentials''), log @ [SessionGet key])
           | Some user \<Rightarrow>
               (case new_access_token of
                  None \<Rightarrow> (Inr \<lparr>db_user = user\<rparr>, log @ [SessionGet key])
                | Some tok \<Rightarrow>
                    (if falsy tok then (Inr \<lparr>db_user = user\<rparr>, log @ [SessionGet key])
                     else (Inl ValueError, log @ [SessionGet key])))))"

text \<open>
  Lines 167 to 174 of the source do not parse (the \<open>raise HTTPException(\<close> of the quota
  check is never closed and its \<open>else:\<close> has no body), so the module as shipped cannot
  be imported at all. To say anything about the function, the model reads the lines as
  the closed \<open>raise\<close>, an empty \<open>else\<close> branch, and then the check of \<open>username\<close>
  (the local \<open>username\<close> is written \<open>username'\<close>, the name being a field of \<open>DBUser\<close>).
  An \<open>HTTPException\<close> or \<open>TypeError\<close> raised inside the \<open>try\<close> is no \<open>JWTError\<close> and leaves
  the function.
\<close>

definition get_current_user ::
  "jwt_config \<Rightarrow> session \<Rightarrow> usec \<Rightarrow> token \<Rightarrow> token \<Rightarrow> (exn + User) \<times> event list" where
  "get_current_user cfg session now x_access_token x_refresh_token =
     (if falsy x_access_token \<or> falsy x_refresh_token then
        (Inl (HTTPException 401 ''Access token or refresh token is missing''), [])
      else
        (case jwt_decode x_access_token (SECRET_KEY cfg) now of
           Inr payload \<Rightarrow>
             (let username' = dict_get payload ''sub'';
                  req_count = dict_get payload ''req_count''
              in (case req_count_exceeds req_count (JWT_RATE_LIMIT cfg) of
                    Inl e \<Rightarrow> (Inl e, [DecodeAccessToken])
                  | Inr exceeded \<Rightarrow>
                      (if exceeded then
                         (Inl (HTTPException 429 ''Rate limit exceeded''), [DecodeAccessToken])
                       else
                         (case username' of
                            None \<Rightarrow>
                              (Inl (HTTPException 401 ''Access token is invalid''), [DecodeAccessToken])
                          | Some u \<Rightarrow>
                              resolve_user session u None x_refresh_token [DecodeAccessToken]))))
         | Inl e \<Rightarrow>
             (if e \<noteq> JWTError then (Inl e, [DecodeAccessToken])
              else
                (case jwt_decode x_refresh_token (SECRET_KEY cfg) now of
                   Inr payload \<Rightarrow>
                     (case dict_get payload ''sub'' of
                        None \<Rightarrow>
                          (Inl (HTTPException 401 ''Refresh token is invalid''),
                           [DecodeAccessToken, DecodeRefreshToken])
                      | Some u \<Rightarrow>
                          (let data = [(''sub'', u)];
                               new_access_token =
                                 create_access_token cfg now data
                                   (Some (minutes (ACCESS_TOKEN_EXPIRE_MINUTES cfg)))
                           in resolve_user session u (Some new_access_token) x_refresh_token
                                [DecodeAccessToken, DecodeRefreshToken,
                                 CreateAccessToken data new_access_token]))
                 | Inl e2 \<Rightarrow>
                     (if e2 \<noteq> JWTError then (Inl e2, [DecodeAccessToken, DecodeRefreshToken])
                      else
                        (Inl (HTTPException 401 ''Refresh token is expired''),
                         [DecodeAccessToken, DecodeRefreshToken]))))))"

text \<open>The failures of the spec's taxonomy, as the exceptions the source raises for them.\<close>

definition MissingCredentials :: exn where
  "MissingCredentials = HTTPException 401 ''Access token or refresh token is missing''"

definition RateLimitExceeded :: exn where
  "RateLimitExceeded = HTTPException 429 ''Rate limit exceeded''"

definition RefreshExpired :: exn where
  "RefreshExpired = HTTPException 401 ''Refresh token is expired''"

definition UnknownSubject :: exn where
  "UnknownSubject = HTTPException 401 ''Could not validate credentials''"

section \<open>Example data\<close>

text \<open>
  A configuration, a password check and stored users for the concrete runs below. The
  two example tokens are the pair \<open>authenticate_user\<close> issues to \<open>example_user\<close> at time 0
  under either configuration: the access token expires after 900 seconds, the refresh
  token after 604800. \<open>shipped_config\<close> leaves \<open>RATE_LIMIT\<close> unbound, as the source
  does; \<open>example_config\<close> binds it to 5. The key and the two lifetimes are examples
  (\<open>in_config.py\<close> is absent).
\<close>

definition example_config :: jwt_config where
  "example_config = \<lparr>SECRET_KEY = ''secret'', ACCESS_TOKEN_EXPIRE_MINUTES = 15,
                      REFRESH_TOKEN_EXPIRE_DAYS = 7, JWT_RATE_LIMIT = Some 5\<rparr>"

definition shipped_config :: jwt_config where
  "shipped_config = \<lparr>SECRET_KEY = ''secret'', ACCESS_TOKEN_EXPIRE_MINUTES = 15,
                      REFRESH_TOKEN_EXPIRE_DAYS = 7, JWT_RATE_LIMIT = None\<rparr>"

definition example_verify_password :: "string \<Rightarrow> string \<Rightarrow> bool" where
  "example_verify_password plain hashed = (hashed = ''hash:'' @ plain)"

definition example_user :: DBUser where
  "example_user = \<lparr>userId = 7, username = ''0007'', hashed_password = ''hash:pw''\<rparr>"

definition alice :: DBUser where
  "alice = \<lparr>userId = 1, username = ''alice'', hashed_password = ''hash:pw''\<rparr>"

definition example_access_token :: token where
  "example_access_token = Jws ''secret'' [(''sub'', JStr ''0007''), (''req_count'', JInt 0), (''exp'', JInt 900)]"

definition example_refresh_token :: token where
  "example_refresh_token = Jws ''secret'' [(''sub'', JStr ''0007''), (''req_count'', JInt 0), (''exp'', JInt 604800)]"

definition over_quota_access_token :: token where
  "over_quota_access_token =
     Jws ''secret'' [(''sub'', JStr ''0007''), (''req_count'', JInt 6), (''exp'', JInt 900)]"

section \<open>Properties of the rate strategies\<close>

text \<open>
  The strategies take their timestamps from \<open>current_time()\<close>, a \<open>datetime\<close>, and
  compute with them as if they were numbers of seconds, which is what the docstrings
  declare (\<open>last_refill_timestamp (float)\<close>, \<open>window_size (int)\<close>). The difference of
  two \<open>datetime\<close>s is a \<open>timedelta\<close>, and Python adds no number to a \<open>timedelta\<close> or
  a \<open>datetime\<close> and converts no \<open>timedelta\<close> with \<open>int\<close>.
\<close>

lemma TokenBucket_call_raises:
  assumes "last_refill_timestamp b = Datetime t0"
  shows "fst (TokenBucket_allow_request b t) = Inl TypeError"
  using assms
  by (cases "tokens b"; cases "refill_rate b"; cases "capacity b")
     (simp_all add: TokenBucket_allow_request_def refill_tokens_def current_time_def
        and_then_def py_min_def py_gt_def)

lemma TokenBucket_number_raises:
  assumes "last_refill_timestamp b = Datetime t0" and "tokens b = PyInt n"
  shows "TokenBucket_allow_request b t = (Inl TypeError, b)"
  using assms
  by (cases "refill_rate b")
     (simp_all add: TokenBucket_allow_request_def refill_tokens_def current_time_def
        and_then_def)

lemma TokenBucket_call_keeps_clock_type:
  assumes "last_refill_timestamp b = Datetime t0"
  shows "\<exists>t1. last_refill_timestamp (snd (TokenBucket_allow_request b t)) = Datetime t1"
  using assms
  by (cases "tokens b"; cases "refill_rate b"; cases "capacity b")
     (simp_all add: TokenBucket_allow_request_def refill_tokens_def current_time_def
        and_then_def py_min_def py_gt_def)

lemma LeakyBucket_call_raises:
  assumes "last_leak_timestamp b = Datetime t0"
  shows "LeakyBucket_allow_request b r t = (Inl TypeError, b)"
  using assms
  by (cases "leak_rate b")
     (simp_all add: LeakyBucket_allow_request_def leak_def current_time_def and_then_def)

lemma TokenBucket_reachable_clock:
  "TokenBucket_reachable b \<Longrightarrow> \<exists>t0. last_refill_timestamp b = Datetime t0"
proof (induction rule: TokenBucket_reachable.induct)
  case (TokenBucket_constructed cap rate t)
  then show ?case by (simp add: TokenBucket_init_def current_time_def)
next
  case (TokenBucket_called b t)
  then show ?case using TokenBucket_call_keeps_clock_type by blast
qed

lemma TokenBucket_reachable_raises:
  "TokenBucket_reachable b \<Longrightarrow> fst (TokenBucket_allow_request b t) = Inl TypeError"
  using TokenBucket_reachable_clock TokenBucket_call_raises by blast

lemma LeakyBucket_reachable_clock:
  "LeakyBucket_reachable b \<Longrightarrow> \<exists>t0. last_leak_timestamp b = Datetime t0"
proof (induction rule: LeakyBucket_reachable.induct)
  case (LeakyBucket_constructed cap rate t)
  then show ?case by (simp add: LeakyBucket_init_def current_time_def)
next
  case (LeakyBucket_called b r t)
  then show ?case using LeakyBucket_call_raises by fastforce
qed

lemma LeakyBucket_reachable_raises:
  "LeakyBucket_reachable b \<Longrightarrow> fst (LeakyBucket_allow_request b r t) = Inl TypeError"
  using LeakyBucket_reachable_clock LeakyBucket_call_raises by fastforce

lemma FixedWindow_number_raises:
  assumes "window_start w = Datetime t0" and "window_size w = PyInt n"
  shows "FixedWindow_allow_request w t t' = (Inl TypeError, w)"
  using assms by (simp add: FixedWindow_allow_request_def and_then_def)

text \<open>
  A \<open>FixedWindow\<close> whose \<open>window_size\<close> is handed over as a \<open>timedelta\<close> does work:
  a \<open>datetime\<close> plus a \<open>timedelta\<close> is a \<open>datetime\<close>.
\<close>

lemma FixedWindow_timedelta_reset:
  assumes "window_start w = Datetime ws" and "window_size w = Timedelta d" and "ws + d \<le> t"
  shows "FixedWindow_allow_request w t t' =
           (Inr True, w\<lparr>window_start := Datetime t', counter := PyInt 1\<rparr>)"
  using assms by (simp add: FixedWindow_allow_request_def and_then_def current_time_def)

lemma FixedWindow_timedelta_inside:
  assumes "window_start w = Datetime ws" and "window_size w = Timedelta d" and "t < ws + d"
    and "counter w = PyInt c" and "limit w = PyInt l"
  shows "FixedWindow_allow_request w t t' =
           (if c < l then (Inr True, w\<lparr>counter := PyInt (c + 1)\<rparr>) else (Inr False, w))"
  using assms by (simp add: FixedWindow_allow_request_def and_then_def current_time_def)

text \<open>
  The run of the spec, with the window size the \<open>timedelta\<close> of 60 seconds: of four calls
  in the first four seconds the first three are admitted and the fourth is rejected;
  the call at 61 seconds is admitted, restarts the window and sets the counter to 1.
\<close>

lemma FixedWindow_timedelta_scenario:
  "(let w0 = FixedWindow_init (PyInt 3) (Timedelta (seconds 60)) 0;
        c1 = FixedWindow_allow_request w0 (seconds 1) (seconds 1);
        c2 = FixedWindow_allow_request (snd c1) (seconds 2) (seconds 2);
        c3 = FixedWindow_allow_request (snd c2) (seconds 3) (seconds 3);
        c4 = FixedWindow_allow_request (snd c3) (seconds 4) (seconds 4);
        c5 = FixedWindow_allow_request (snd c4) (seconds 61) (seconds 61)
    in map fst [c1, c2, c3, c4, c5] = [Inr True, Inr True, Inr True, Inr False, Inr True]
       \<and> counter (snd c4) = PyInt 3
       \<and> counter (snd c5) = PyInt 1 \<and> window_start (snd c5) = Datetime (seconds 61))"
  by (simp add: FixedWindow_allow_request_def FixedWindow_init_def and_then_def current_time_def
      seconds_def Let_def)

text \<open>
  Claim C4 (none of the three \<open>allow_request\<close> methods ever raises; each always returns
  a boolean). The code raises on the first call of each strategy built with the numbers
  its docstring asks for: a token bucket of capacity 3 refilled at 1 per second, a leaky
  bucket of capacity 2 leaking 1 per second and a fixed window of 3 requests per 60,
  each called one second after construction, raise \<open>TypeError\<close> and leave the object
  unchanged.
\<close>

theorem allow_request_raises_TypeError:
  "TokenBucket_allow_request (TokenBucket_init (PyInt 3) (PyInt 1) 0) (seconds 1)
     = (Inl TypeError, TokenBucket_init (PyInt 3) (PyInt 1) 0)
   \<and> LeakyBucket_allow_request (LeakyBucket_init (PyInt 2) (PyInt 1) 0) ''GET /players/'' (seconds 1)
     = (Inl TypeError, LeakyBucket_init (PyInt 2) (PyInt 1) 0)
   \<and> FixedWindow_allow_request (FixedWindow_init (PyInt 3) (PyInt 60) 0) (seconds 1) (seconds 1)
     = (Inl TypeError, FixedWindow_init (PyInt 3) (PyInt 60) 0)"
  by (simp add: TokenBucket_number_raises LeakyBucket_call_raises FixedWindow_number_raises
      TokenBucket_init_def LeakyBucket_init_def FixedWindow_init_def current_time_def)

text \<open>
  Claim C7 (a full token bucket admits \<open>capacity\<close> back-to-back calls and rejects the
  next). The first of the back-to-back calls on a full bucket of capacity 3, with zero
  elapsed time, already raises \<open>TypeError\<close>: \<open>self.tokens + tokens_to_add\<close> adds a
  \<open>timedelta\<close> to the number 3. No call is admitted and none is rejected.
\<close>

theorem TokenBucket_full_bucket_first_call_raises:
  "TokenBucket_allow_request (TokenBucket_init (PyInt 3) (PyInt 1) 0) 0
     = (Inl TypeError, TokenBucket_init (PyInt 3) (PyInt 1) 0)"
  by (simp add: TokenBucket_number_raises TokenBucket_init_def current_time_def)

text \<open>
  Claim C6 (fixed window with \<open>limit = 3\<close> and \<open>windowSize = 60\<close>: the first three calls
  within 60 seconds are admitted). With the window size the number 60, the first call,
  one second into the window, raises \<open>TypeError\<close>: \<open>self.window_start + self.window_size\<close>
  adds a number to a \<open>datetime\<close>. With the window size the \<open>timedelta\<close> of 60 seconds
  the same call is admitted and counted.
\<close>

theorem FixedWindow_limit3_window60_first_call:
  "FixedWindow_allow_request (FixedWindow_init (PyInt 3) (PyInt 60) 0) (seconds 1) (seconds 1)
     = (Inl TypeError, FixedWindow_init (PyInt 3) (PyInt 60) 0)
   \<and> FixedWindow_allow_request (FixedWindow_init (PyInt 3) (Timedelta (seconds 60)) 0)
        (seconds 1) (seconds 1)
     = (Inr True, (FixedWindow_init (PyInt 3) (Timedelta (seconds 60)) 0)\<lparr>counter := PyInt 1\<rparr>)"
  by (simp add: FixedWindow_number_raises FixedWindow_timedelta_inside [where ws = 0 and d = "seconds 60" and c = 0 and l = 3]
      FixedWindow_init_def current_time_def seconds_def)

section \<open>Properties of the store-backed admission checks\<close>

lemma timedelta_seconds_of_seconds:
  "0 \<le> n \<Longrightarrow> n < 86400 \<Longrightarrow> timedelta_seconds (seconds n) = n"
  by (simp add: timedelta_seconds_def seconds_def)

lemma check_rate_limit_cases:
  "check_rate_limit redis now ip =
     (case redis_get redis now (''rate_limit:'' @ ip) of
        None \<Rightarrow> (True, redis(''rate_limit:'' @ ip \<mapsto> (1, Some (now + seconds RATE_PERIOD))))
      | Some c \<Rightarrow>
          if RATE_LIMIT \<le> c then (False, redis)
          else (True, redis(''rate_limit:'' @ ip \<mapsto> (c + 1, Some (now + seconds RATE_PERIOD)))))"
  by (auto simp: check_rate_limit_def redis_get_def redis_incr_def redis_expire_def live_def
      RATE_PERIOD_def Let_def split: option.splits)

text \<open>
  Claim C8. \<open>check_rate_limit\<close> rejects a request exactly when the identity's counter is
  stored (and not expired) and has reached \<open>RATE_LIMIT\<close>; a rejected request leaves the
  store as it was; an admitted request stores the counter plus one (one, when there was
  none) under the identity's key, expiring \<open>RATE_PERIOD\<close> seconds after the request.
\<close>

theorem check_rate_limit_quota:
  "(\<not> fst (check_rate_limit redis now ip) \<longleftrightarrow>
      (\<exists>c. redis_get redis now (''rate_limit:'' @ ip) = Some c \<and> RATE_LIMIT \<le> c))
   \<and> (\<not> fst (check_rate_limit redis now ip) \<longrightarrow> snd (check_rate_limit redis now ip) = redis)
   \<and> (fst (check_rate_limit redis now ip) \<longrightarrow>
        snd (check_rate_limit redis now ip) =
          redis(''rate_limit:'' @ ip \<mapsto>
            ((case redis_get redis now (''rate_limit:'' @ ip) of None \<Rightarrow> 0 | Some c \<Rightarrow> c) + 1,
             Some (now + seconds RATE_PERIOD))))"
  by (simp add: check_rate_limit_cases split: option.splits)

theorem check_rate_limit_quota_witness:
  "fst (check_rate_limit Map.empty 0 ''10.0.0.1'')
   \<and> snd (check_rate_limit Map.empty 0 ''10.0.0.1'') ''rate_limit:10.0.0.1'' = Some (1, Some 60000000)
   \<and> \<not> fst (check_rate_limit [''rate_limit:10.0.0.1'' \<mapsto> (5, Some 60000000)] 1000000 ''10.0.0.1'')
   \<and> snd (check_rate_limit [''rate_limit:10.0.0.1'' \<mapsto> (5, Some 60000000)] 1000000 ''10.0.0.1'')
        = [''rate_limit:10.0.0.1'' \<mapsto> (5, Some 60000000)]"
  using check_rate_limit_quota [of Map.empty 0 "''10.0.0.1''"]
    check_rate_limit_quota [of "[''rate_limit:10.0.0.1'' \<mapsto> (5, Some 60000000)]" 1000000 "''10.0.0.1''"]
  by (simp add: redis_get_def live_def RATE_LIMIT_def RATE_PERIOD_def seconds_def)

text \<open>
  The throttle. A request that finds no record stores the count 1 and a reset time one
  \<open>THROTTLE_PERIOD\<close> ahead. The reset time serves both as the end of the counting window
  and as the end of the cooldown: line 111 rejects every request that arrives before it,
  whatever the count. So within a window no second request is admitted, whichever way
  line 108 is read, and the record stays in the store until the reset time has passed.
\<close>

lemma check_throttle_one_admission_per_window:
  assumes absent: "redis_get redis now (''throttle:'' @ ip) = None"
    and lim: "1 \<le> THROTTLE_LIMIT cfg"
    and per: "0 < THROTTLE_PERIOD cfg" "THROTTLE_PERIOD cfg < 86400"
    and sound: "\<And>t u. strptime t = Inr u \<Longrightarrow> u = t"
    and later: "now \<le> now'" "now' < now + seconds (THROTTLE_PERIOD cfg)"
  shows "check_throttle strptime cfg redis now ip =
           (Inr (True, None),
            redis(''throttle:'' @ ip \<mapsto>
              ((1, now + seconds (THROTTLE_PERIOD cfg)), Some (now + seconds (THROTTLE_PERIOD cfg)))))
         \<and> check_throttle strptime cfg
             (redis(''throttle:'' @ ip \<mapsto>
               ((1, now + seconds (THROTTLE_PERIOD cfg)), Some (now + seconds (THROTTLE_PERIOD cfg)))))
             now' ip
             \<noteq> (Inr (True, None), r)"
proof -
  let ?key = "''throttle:'' @ ip"
  let ?reset = "now + seconds (THROTTLE_PERIOD cfg)"
  let ?r = "redis(?key \<mapsto> ((1, ?reset), Some ?reset))"
  have ex: "max (timedelta_seconds (seconds (THROTTLE_PERIOD cfg))) 1 = THROTTLE_PERIOD cfg"
    using per by (simp add: timedelta_seconds_of_seconds)
  have first: "check_throttle strptime cfg redis now ip = (Inr (True, None), ?r)"
    using absent lim ex
    by (simp add: check_throttle_def throttle_window_def Let_def redis_set_def)
  have get: "redis_get ?r now' ?key = Some (1, ?reset)"
    using later by (simp add: redis_get_def live_def)
  have second: "check_throttle strptime cfg ?r now' ip \<noteq> (Inr (True, None), r)"
    using later sound [of ?reset] by (cases "strptime ?reset")
      (auto simp add: check_throttle_def Let_def get [simplified] throttle_window_def and_then_def)
  show ?thesis using first second by simp
qed

text \<open>
  The count an admitted request stores is 1 (or 0 when the limit is below 1): with the
  limit of 5 that the source configures, the count never exceeds the limit and the
  cooldown of line 128 is never set.
\<close>

lemma check_throttle_stored_count:
  assumes "check_throttle strptime cfg redis now ip = (Inr (True, None), redis')"
  shows "\<exists>reset_time deadline. redis' (''throttle:'' @ ip) =
           Some ((if 1 \<le> THROTTLE_LIMIT cfg then 1 else 0, reset_time), deadline)"
  using assms
  by (auto simp add: check_throttle_def throttle_window_def and_then_def Let_def redis_set_def
      split: option.splits sum.splits if_splits)

text \<open>
  Claim C2 (while in Normal every request increments the counter and is admitted, until
  the count exceeds \<open>THROTTLE_LIMIT\<close>). Under the source's constants, a client's first
  request, half a second after the epoch, is admitted and stores the count 1 with the
  reset time 60 seconds ahead. Its second request, one second later, is not admitted
  and the stored count stays 1: as written, line 108 raises \<open>AttributeError\<close>; with the
  call that was meant, line 112 rejects the request with 59 seconds to wait.
\<close>

theorem check_throttle_second_request_in_window:
  "check_throttle strptime main_config Map.empty 500000 ''10.0.0.1''
     = (Inr (True, None), [''throttle:10.0.0.1'' \<mapsto> ((1, 60500000), Some 60500000)])
   \<and> check_throttle strptime_module main_config
        [''throttle:10.0.0.1'' \<mapsto> ((1, 60500000), Some 60500000)] 1500000 ''10.0.0.1''
     = (Inl AttributeError, [''throttle:10.0.0.1'' \<mapsto> ((1, 60500000), Some 60500000)])
   \<and> check_throttle strptime_class main_config
        [''throttle:10.0.0.1'' \<mapsto> ((1, 60500000), Some 60500000)] 1500000 ''10.0.0.1''
     = (Inr (False, Some 59000000), [''throttle:10.0.0.1'' \<mapsto> ((1, 60500000), Some 60500000)])"
  by (simp add: check_throttle_def throttle_window_def redis_get_def redis_set_def live_def
        timedelta_seconds_def seconds_def Let_def main_config_def strptime_module_def
        strptime_class_def and_then_def)

text \<open>
  Every request that goes on to the increment of line 124 does so with the count 0: the
  count read from the store is overwritten on line 116, and a new record starts at 0 on
  line 119. So the incremented count is always 1, and under the source's limit of 5 a
  call that changes the store stores the count 1 and never the cooldown of line 128.
\<close>

lemma throttle_window_count_zero:
  "throttle_window strptime cfg current now = Inr (Inr (count0, reset_time0)) \<Longrightarrow> count0 = 0"
  by (auto simp add: throttle_window_def and_then_def split: option.splits sum.splits if_splits)

lemma check_throttle_never_sets_cooldown:
  assumes "check_throttle strptime main_config redis now ip = (result, redis')"
    and "redis' \<noteq> redis"
  shows "result = Inr (True, None)
         \<and> (\<exists>reset_time deadline. redis' (''throttle:'' @ ip) = Some ((1, reset_time), deadline))"
  using assms
  by (auto simp add: check_throttle_def throttle_window_def and_then_def Let_def redis_set_def
      main_config_def split: option.splits sum.splits if_splits)

text \<open>
  What lines 127 to 138 would do were the limit ever exceeded, for every value of the
  three constants (with the cooldown positive and under one day, and the parse of line
  108 any function that returns the stored time when it returns one): the request is
  answered \<open>(True, None)\<close>, the count 0 is stored with the reset time one cooldown
  ahead, and no request before that time is admitted. By \<open>throttle_window_count_zero\<close>
  the hypotheses hold only for a limit below 1, never for the limit of 5.
\<close>

lemma check_throttle_cooldown_branch:
  assumes reach: "throttle_window strptime cfg (redis_get redis now (''throttle:'' @ ip)) now
                    = Inr (Inr (count0, reset0))"
    and exceed: "count0 + 1 > THROTTLE_LIMIT cfg"
    and cd: "0 < COOLDOWN_PERIOD cfg" "COOLDOWN_PERIOD cfg < 86400"
    and sound: "\<And>t u. strptime t = Inr u \<Longrightarrow> u = t"
  shows "\<exists>redis'. check_throttle strptime cfg redis now ip = (Inr (True, None), redis')
          \<and> redis' (''throttle:'' @ ip) =
               Some ((0, now + seconds (COOLDOWN_PERIOD cfg)), Some (now + seconds (COOLDOWN_PERIOD cfg)))
          \<and> (\<forall>now'. now \<le> now' \<and> now' < now + seconds (COOLDOWN_PERIOD cfg) \<longrightarrow>
                (\<forall>r. check_throttle strptime cfg redis' now' ip \<noteq> (Inr (True, None), r))
              \<and> (strptime (now + seconds (COOLDOWN_PERIOD cfg)) = Inr (now + seconds (COOLDOWN_PERIOD cfg)) \<longrightarrow>
                   check_throttle strptime cfg redis' now' ip
                     = (Inr (False, Some (now + seconds (COOLDOWN_PERIOD cfg) - now')), redis')))"
proof -
  let ?key = "''throttle:'' @ ip"
  let ?reset = "now + seconds (COOLDOWN_PERIOD cfg)"
  let ?r = "redis(?key \<mapsto> ((0, ?reset), Some ?reset))"
  have ex: "max (timedelta_seconds (seconds (COOLDOWN_PERIOD cfg))) 1 = COOLDOWN_PERIOD cfg"
    using cd by (simp add: timedelta_seconds_of_seconds)
  have first: "check_throttle strptime cfg redis now ip = (Inr (True, None), ?r)"
    using reach exceed ex by (simp add: check_throttle_def Let_def redis_set_def)
  have later: "(\<forall>r. check_throttle strptime cfg ?r now' ip \<noteq> (Inr (True, None), r))
      \<and> (strptime ?reset = Inr ?reset \<longrightarrow>
           check_throttle strptime cfg ?r now' ip = (Inr (False, Some (?reset - now')), ?r))"
    if "now \<le> now'" "now' < ?reset" for now'
  proof -
    have get: "redis_get ?r now' ?key = Some (0, ?reset)"
      using that by (simp add: redis_get_def live_def)
    show ?thesis
      using that sound [of ?reset] by (cases "strptime ?reset")
        (auto simp add: check_throttle_def Let_def get [simplified] throttle_window_def and_then_def)
  qed
  show ?thesis
    using first later by auto
qed


section \<open>Properties of the token lifecycle\<close>

lemma py_int_of_str_alice: "py_int_of_str ''alice'' = None"
  by (simp add: py_int_of_str_def strip_def is_space_def unsigned_value_def is_digit_def)

lemma py_int_of_str_0007: "py_int_of_str ''0007'' = Some 7"
  by (simp add: py_int_of_str_def strip_def is_space_def unsigned_value_def is_digit_def digit_value_def)

lemma create_access_token_minted:
  "create_access_token cfg now data (Some (minutes (ACCESS_TOKEN_EXPIRE_MINUTES cfg)))
     = Jws (SECRET_KEY cfg)
         (dict_update data ''exp'' (JInt (timegm (now + minutes (ACCESS_TOKEN_EXPIRE_MINUTES cfg)))))"
  by (simp add: create_access_token_def jwt_encode_def Let_def)

lemma create_refresh_token_minted:
  "create_refresh_token cfg now data (Some (days (REFRESH_TOKEN_EXPIRE_DAYS cfg)))
     = Jws (SECRET_KEY cfg)
         (dict_update data ''exp'' (JInt (timegm (now + days (REFRESH_TOKEN_EXPIRE_DAYS cfg)))))"
  by (simp add: create_refresh_token_def jwt_encode_def Let_def)

lemma jwt_decode_Inl: "jwt_decode tok key now = Inl e \<Longrightarrow> e = JWTError"
  by (auto simp: jwt_decode_def split: token.splits if_splits)

lemma jwt_decode_sub:
  "jwt_decode tok key now = Inr payload \<Longrightarrow> dict_get payload ''sub'' = Some u \<Longrightarrow> \<exists>s. u = JStr s"
  by (auto simp: jwt_decode_def sub_valid_def split: token.splits if_splits jval.splits)

lemma jwt_decode_Jws:
  "jwt_decode (Jws k payload) key now = Inr p \<Longrightarrow> p = payload"
  by (auto simp: jwt_decode_def split: if_splits)

lemma login_access_token:
  assumes "authenticate_user verify_password cfg session now user_id password = Inr t"
  shows "\<exists>user. session user_id = Some user
          \<and> access_token t = Jws (SECRET_KEY cfg)
               [(''sub'', JStr (username user)), (''req_count'', JInt 0),
                (''exp'', JInt (timegm (now + minutes (ACCESS_TOKEN_EXPIRE_MINUTES cfg))))]
          \<and> refresh_token t = Jws (SECRET_KEY cfg)
               [(''sub'', JStr (username user)), (''req_count'', JInt 0),
                (''exp'', JInt (timegm (now + days (REFRESH_TOKEN_EXPIRE_DAYS cfg))))]"
  using assms
  by (auto simp add: authenticate_user_def create_access_token_minted create_refresh_token_minted
      split: option.splits if_splits)

lemma authenticate_user_succeeds:
  assumes "session user_id = Some user" and "verify_password password (hashed_password user)"
  shows "authenticate_user verify_password cfg session now user_id password
     = Inr \<lparr>access_token = Jws (SECRET_KEY cfg)
               [(''sub'', JStr (username user)), (''req_count'', JInt 0),
                (''exp'', JInt (timegm (now + minutes (ACCESS_TOKEN_EXPIRE_MINUTES cfg))))],
            refresh_token = Jws (SECRET_KEY cfg)
               [(''sub'', JStr (username user)), (''req_count'', JInt 0),
                (''exp'', JInt (timegm (now + days (REFRESH_TOKEN_EXPIRE_DAYS cfg))))],
            token_type = ''JWT''\<rparr>"
  using assms
  by (simp add: authenticate_user_def create_access_token_minted create_refresh_token_minted)

text \<open>
  The branches of \<open>get_current_user\<close>, for a call with both tokens present. An access
  token that decodes keeps the refresh token from being decoded; with \<open>RATE_LIMIT\<close>
  unbound, as shipped, the call then raises \<open>NameError\<close> on line 167.
\<close>

lemma access_valid_path:
  assumes "\<not> falsy a" "\<not> falsy r" "jwt_decode a (SECRET_KEY cfg) now = Inr payload"
  shows "DecodeRefreshToken \<notin> set (snd (get_current_user cfg session now a r))"
  using assms
  by (auto simp: get_current_user_def resolve_user_def Let_def
      split: sum.splits option.splits if_splits)

lemma unbound_rate_limit_raises:
  assumes "\<not> falsy a" "\<not> falsy r" "jwt_decode a (SECRET_KEY cfg) now = Inr payload"
    and "JWT_RATE_LIMIT cfg = None"
  shows "get_current_user cfg session now a r = (Inl NameError, [DecodeAccessToken])"
  using assms by (simp add: get_current_user_def Let_def req_count_exceeds_def)

text \<open>
  When the access token fails and the refresh token decodes with a subject that reads as
  a key, a token is minted for that subject and the key is looked up: no stored user is
  \<open>UnknownSubject\<close>; a stored user leads to line 215, which raises \<open>ValueError\<close>. When
  both tokens fail the call raises \<open>RefreshExpired\<close>.
\<close>

lemma refresh_path_outcome:
  assumes "\<not> falsy a" "\<not> falsy r"
    and "jwt_decode a (SECRET_KEY cfg) now = Inl JWTError"
    and "jwt_decode r (SECRET_KEY cfg) now = Inr payload"
    and "dict_get payload ''sub'' = Some (JStr s)" and "py_int_of_str s = Some key"
  shows "get_current_user cfg session now a r =
     (case session key of Some user \<Rightarrow> Inl ValueError | None \<Rightarrow> Inl UnknownSubject,
      [DecodeAccessToken, DecodeRefreshToken,
       CreateAccessToken [(''sub'', JStr s)]
         (Jws (SECRET_KEY cfg)
            [(''sub'', JStr s),
             (''exp'', JInt (timegm (now + minutes (ACCESS_TOKEN_EXPIRE_MINUTES cfg))))]),
       SessionGet key])"
  using assms
  by (simp add: get_current_user_def resolve_user_def Let_def int_of_jval_def
      create_access_token_minted falsy_def UnknownSubject_def split: option.splits)

lemma both_fail:
  assumes "\<not> falsy a" "\<not> falsy r"
    and "jwt_decode a (SECRET_KEY cfg) now = Inl e1"
    and "jwt_decode r (SECRET_KEY cfg) now = Inl e2"
  shows "get_current_user cfg session now a r =
     (Inl RefreshExpired, [DecodeAccessToken, DecodeRefreshToken])"
  using assms jwt_decode_Inl [OF assms(3)] jwt_decode_Inl [OF assms(4)]
  by (simp add: get_current_user_def RefreshExpired_def)

text \<open>
  So no call whose access token fails returns a user, and as shipped no call at all does.
\<close>

lemma refresh_path_never_returns:
  assumes "jwt_decode a (SECRET_KEY cfg) now = Inl e"
  shows "\<exists>err. fst (get_current_user cfg session now a r) = Inl err"
  using assms
  by (auto simp add: get_current_user_def resolve_user_def Let_def create_access_token_minted
      falsy_def split: sum.splits option.splits if_splits)

lemma get_current_user_never_returns_as_shipped:
  assumes "JWT_RATE_LIMIT cfg = None"
  shows "\<exists>err. fst (get_current_user cfg session now a r) = Inl err"
proof (cases "jwt_decode a (SECRET_KEY cfg) now")
  case (Inl e)
  then show ?thesis by (rule refresh_path_never_returns)
next
  case (Inr payload)
  then show ?thesis
    using assms by (simp add: get_current_user_def Let_def req_count_exceeds_def)
qed

text \<open>Every token a call mints is signed over the subject of the refresh token and an expiry.\<close>

lemma minted_token:
  assumes "CreateAccessToken data tok \<in> set (snd (get_current_user cfg session now a r))"
  shows "\<exists>s. data = [(''sub'', JStr s)]
          \<and> tok = Jws (SECRET_KEY cfg)
               [(''sub'', JStr s),
                (''exp'', JInt (timegm (now + minutes (ACCESS_TOKEN_EXPIRE_MINUTES cfg))))]"
proof (cases "falsy a \<or> falsy r")
  case True
  then show ?thesis using assms by (simp add: get_current_user_def)
next
  case present: False
  show ?thesis
  proof (cases "jwt_decode a (SECRET_KEY cfg) now")
    case (Inr payload)
    then show ?thesis
      using assms present
      by (auto simp add: get_current_user_def resolve_user_def Let_def
          split: sum.splits option.splits if_splits)
  next
    case a: (Inl e)
    show ?thesis
    proof (cases "jwt_decode r (SECRET_KEY cfg) now")
      case (Inl e2)
      then show ?thesis
        using assms present a by (auto simp add: get_current_user_def split: if_splits)
    next
      case r: (Inr payload)
      show ?thesis
      proof (cases "dict_get payload ''sub''")
        case None
        then show ?thesis
          using assms present a r by (auto simp add: get_current_user_def split: if_splits)
      next
        case (Some v)
        then obtain s where v: "v = JStr s"
          using jwt_decode_sub [OF r] by blast
        show ?thesis
          using assms present a r Some v
          by (auto simp add: get_current_user_def resolve_user_def Let_def
              create_access_token_minted split: sum.splits option.splits if_splits)
      qed
    qed
  qed
qed

text \<open>
  Claim C1 (when the access token fails and the refresh token is valid, a new access
  token is minted and surfaced to the caller with the resolved identity). The access
  token of the stored user 7 has expired and the refresh token decodes: the call mints
  the new access token, finds the user, and raises \<open>ValueError\<close> on line 215, where it
  assigns the token to an attribute the \<open>User\<close> model does not have. The caller
  receives neither the identity nor the token.
\<close>

theorem get_current_user_refresh_path_raises:
  "jwt_decode example_access_token (SECRET_KEY shipped_config) (seconds 1000) = Inl JWTError
   \<and> jwt_decode example_refresh_token (SECRET_KEY shipped_config) (seconds 1000)
       = Inr [(''sub'', JStr ''0007''), (''req_count'', JInt 0), (''exp'', JInt 604800)]
   \<and> get_current_user shipped_config [7 \<mapsto> example_user] (seconds 1000)
        example_access_token example_refresh_token
      = (Inl ValueError,
         [DecodeAccessToken, DecodeRefreshToken,
          CreateAccessToken [(''sub'', JStr ''0007'')]
            (Jws ''secret'' [(''sub'', JStr ''0007''), (''exp'', JInt 1900)]),
          SessionGet 7])"
  by (simp add: get_current_user_def resolve_user_def int_of_jval_def py_int_of_str_0007
      jwt_decode_def create_access_token_def jwt_encode_def
      example_access_token_def example_refresh_token_def shipped_config_def
      exp_valid_def sub_valid_def dict_get_def timegm_def seconds_def minutes_def falsy_def Let_def)

text \<open>
  Claim C3 (an access token whose \<open>req_count\<close> exceeds the ceiling fails with
  \<open>RateLimitExceeded\<close>). The access token decodes and carries \<open>req_count = 6\<close>; the
  comparison of line 167 reads the global \<open>RATE_LIMIT\<close>, which the module does not
  bind, and the call raises \<open>NameError\<close>, not the 429.
\<close>

theorem quota_check_raises_NameError:
  "jwt_decode over_quota_access_token (SECRET_KEY shipped_config) (seconds 60)
     = Inr [(''sub'', JStr ''0007''), (''req_count'', JInt 6), (''exp'', JInt 900)]
   \<and> get_current_user shipped_config [7 \<mapsto> example_user] (seconds 60)
        over_quota_access_token example_refresh_token
     = (Inl NameError, [DecodeAccessToken])"
  by (simp add: get_current_user_def req_count_exceeds_def jwt_decode_def
      over_quota_access_token_def example_refresh_token_def shipped_config_def
      exp_valid_def sub_valid_def dict_get_def timegm_def seconds_def falsy_def Let_def)

text \<open>In a module that binds the name to a ceiling, the check does what the claim says.\<close>

lemma quota_exceeded_when_ceiling_bound:
  assumes "\<not> falsy x_access_token" and "\<not> falsy x_refresh_token"
    and "jwt_decode x_access_token (SECRET_KEY cfg) now = Inr payload"
    and "dict_get payload ''req_count'' = Some (JInt n)"
    and "JWT_RATE_LIMIT cfg = Some ceiling" and "n > ceiling"
  shows "get_current_user cfg session now x_access_token x_refresh_token
           = (Inl RateLimitExceeded, [DecodeAccessToken])"
  using assms
  by (simp add: get_current_user_def Let_def req_count_exceeds_def RateLimitExceeded_def)

text \<open>
  Claim C9. Every access token minted during a call of \<open>get_current_user\<close>, which
  happens on the refresh path only, is made from the claims set holding the subject
  alone; whenever it is decoded, its payload holds that subject and an expiry and
  nothing else, so its \<open>req_count\<close> is absent. The access token issued at login decodes
  to \<open>req_count = 0\<close>. This is stated of the token as minted, whether or not the call
  that minted it goes on to return.
\<close>

theorem minted_access_token_has_no_req_count:
  "(\<forall>data tok now' payload.
      CreateAccessToken data tok
        \<in> set (snd (get_current_user cfg session now x_access_token x_refresh_token)) \<and>
      jwt_decode tok (SECRET_KEY cfg) now' = Inr payload \<longrightarrow>
      map fst data = [''sub''] \<and> map fst payload = [''sub'', ''exp''] \<and>
      dict_get payload ''sub'' = dict_get data ''sub'' \<and>
      dict_get payload ''req_count'' = None)
   \<and> (\<forall>t now' payload.
        authenticate_user verify_password cfg session now user_id password = Inr t \<and>
        jwt_decode (access_token t) (SECRET_KEY cfg) now' = Inr payload \<longrightarrow>
        dict_get payload ''req_count'' = Some (JInt 0))"
proof (intro conjI allI impI)
  fix data tok now' payload
  assume a: "CreateAccessToken data tok
        \<in> set (snd (get_current_user cfg session now x_access_token x_refresh_token)) \<and>
      jwt_decode tok (SECRET_KEY cfg) now' = Inr payload"
  then obtain s where d: "data = [(''sub'', JStr s)]"
    and t: "tok = Jws (SECRET_KEY cfg)
               [(''sub'', JStr s),
                (''exp'', JInt (timegm (now + minutes (ACCESS_TOKEN_EXPIRE_MINUTES cfg))))]"
    using minted_token by blast
  from a t have p: "payload = [(''sub'', JStr s),
                (''exp'', JInt (timegm (now + minutes (ACCESS_TOKEN_EXPIRE_MINUTES cfg))))]"
    using jwt_decode_Jws by auto
  show "map fst data = [''sub'']" by (simp add: d)
  show "map fst payload = [''sub'', ''exp'']" by (simp add: p)
  show "dict_get payload ''sub'' = dict_get data ''sub''" by (simp add: p d dict_get_def)
  show "dict_get payload ''req_count'' = None" by (simp add: p dict_get_def)
next
  fix t now' payload
  assume c: "authenticate_user verify_password cfg session now user_id password = Inr t \<and>
        jwt_decode (access_token t) (SECRET_KEY cfg) now' = Inr payload"
  then have auth: "authenticate_user verify_password cfg session now user_id password = Inr t"
    by simp
  from login_access_token [OF auth] obtain user :: DBUser where "access_token t = Jws (SECRET_KEY cfg)
               [(''sub'', JStr (username user)), (''req_count'', JInt 0),
                (''exp'', JInt (timegm (now + minutes (ACCESS_TOKEN_EXPIRE_MINUTES cfg))))]"
    by blast
  with c have "payload = [(''sub'', JStr (username user)), (''req_count'', JInt 0),
                (''exp'', JInt (timegm (now + minutes (ACCESS_TOKEN_EXPIRE_MINUTES cfg))))]"
    using jwt_decode_Jws by auto
  then show "dict_get payload ''req_count'' = Some (JInt 0)"
    by (simp add: dict_get_def)
qed

theorem minted_access_token_has_no_req_count_witness:
  "CreateAccessToken [(''sub'', JStr ''0007'')]
      (Jws ''secret'' [(''sub'', JStr ''0007''), (''exp'', JInt 1900)])
     \<in> set (snd (get_current_user shipped_config [7 \<mapsto> example_user] (seconds 1000)
                  example_access_token example_refresh_token))
   \<and> jwt_decode (Jws ''secret'' [(''sub'', JStr ''0007''), (''exp'', JInt 1900)])
        (SECRET_KEY shipped_config) (seconds 1200)
     = Inr [(''sub'', JStr ''0007''), (''exp'', JInt 1900)]
   \<and> dict_get [(''sub'', JStr ''0007''), (''exp'', JInt 1900)] ''req_count'' = None
   \<and> authenticate_user example_verify_password shipped_config [7 \<mapsto> example_user] 0 7 ''pw''
     = Inr \<lparr>access_token = example_access_token, refresh_token = example_refresh_token,
            token_type = ''JWT''\<rparr>
   \<and> jwt_decode example_access_token (SECRET_KEY shipped_config) (seconds 60)
     = Inr [(''sub'', JStr ''0007''), (''req_count'', JInt 0), (''exp'', JInt 900)]
   \<and> dict_get [(''sub'', JStr ''0007''), (''req_count'', JInt 0), (''exp'', JInt 900)] ''req_count''
     = Some (JInt 0)"
proof -
  let ?tok = "Jws ''secret'' [(''sub'', JStr ''0007''), (''exp'', JInt 1900)]"
  let ?t = "\<lparr>access_token = example_access_token, refresh_token = example_refresh_token,
            token_type = ''JWT''\<rparr>"
  have minted: "CreateAccessToken [(''sub'', JStr ''0007'')] ?tok
     \<in> set (snd (get_current_user shipped_config [7 \<mapsto> example_user] (seconds 1000)
                  example_access_token example_refresh_token))"
    by (simp add: get_current_user_def resolve_user_def int_of_jval_def py_int_of_str_0007
        jwt_decode_def create_access_token_def jwt_encode_def
        example_access_token_def example_refresh_token_def shipped_config_def
        exp_valid_def sub_valid_def dict_get_def timegm_def seconds_def minutes_def falsy_def Let_def)
  have rotated: "jwt_decode ?tok (SECRET_KEY shipped_config) (seconds 1200)
     = Inr [(''sub'', JStr ''0007''), (''exp'', JInt 1900)]"
    by (simp add: jwt_decode_def shipped_config_def exp_valid_def sub_valid_def dict_get_def
        timegm_def seconds_def)
  have login: "authenticate_user example_verify_password shipped_config [7 \<mapsto> example_user] 0 7 ''pw''
     = Inr ?t"
    by (simp add: authenticate_user_def example_verify_password_def example_user_def
        shipped_config_def create_access_token_def create_refresh_token_def jwt_encode_def
        example_access_token_def example_refresh_token_def timegm_def minutes_def days_def
        seconds_def Let_def)
  have issued: "jwt_decode example_access_token (SECRET_KEY shipped_config) (seconds 60)
     = Inr [(''sub'', JStr ''0007''), (''req_count'', JInt 0), (''exp'', JInt 900)]"
    by (simp add: jwt_decode_def example_access_token_def shipped_config_def exp_valid_def
        sub_valid_def dict_get_def timegm_def seconds_def)
  note T = minted_access_token_has_no_req_count
    [of shipped_config "[7 \<mapsto> example_user]" "seconds 1000"
        example_access_token example_refresh_token example_verify_password 7 "''pw''"]
  have a: "dict_get [(''sub'', JStr ''0007''), (''exp'', JInt 1900)] ''req_count'' = None"
    using T [THEN conjunct1, rule_format, of "[(''sub'', JStr ''0007'')]" ?tok "seconds 1200"
        "[(''sub'', JStr ''0007''), (''exp'', JInt 1900)]"]
      minted rotated by simp
  note T0 = minted_access_token_has_no_req_count
    [of shipped_config "[7 \<mapsto> example_user]" 0
        example_access_token example_refresh_token example_verify_password 7 "''pw''"]
  have b: "dict_get [(''sub'', JStr ''0007''), (''req_count'', JInt 0), (''exp'', JInt 900)] ''req_count''
     = Some (JInt 0)"
    using T0 [THEN conjunct2, rule_format, of ?t "seconds 60"
        "[(''sub'', JStr ''0007''), (''req_count'', JInt 0), (''exp'', JInt 900)]"]
      login issued by simp
  show ?thesis
    using a b minted rotated login issued by simp
qed

text \<open>
  Presented as the access token before it expires, such a token makes the call raise on
  line 167: \<open>NameError\<close> as shipped, and \<open>TypeError\<close> (\<open>None\<close> compared with the ceiling)
  where \<open>RATE_LIMIT\<close> is bound.
\<close>

lemma rotated_access_token_quota_check_raises:
  assumes "\<not> falsy x_refresh_token"
    and "timegm now' \<le> e"
  shows "get_current_user cfg session now'
           (Jws (SECRET_KEY cfg) [(''sub'', JStr s), (''exp'', JInt e)]) x_refresh_token
         = (Inl (case JWT_RATE_LIMIT cfg of None \<Rightarrow> NameError | Some ceiling \<Rightarrow> TypeError),
            [DecodeAccessToken])"
  using assms
  by (simp add: get_current_user_def jwt_decode_def exp_valid_def sub_valid_def dict_get_def
      falsy_def req_count_exceeds_def Let_def split: option.splits)

text \<open>
  Claim C5 (a token pair issued at login resolves back to the same stored user). Login
  looks the user up by primary key and embeds \<open>user.username\<close> as the subject;
  validation reads the subject with \<open>int\<close> and looks that number up as the primary key.
  The user stored under key 1 with the username \<open>alice\<close> logs in and receives a token
  pair; validating the pair a minute later raises \<open>ValueError\<close>.
\<close>

theorem issue_then_validate_non_numeric_username:
  "authenticate_user example_verify_password example_config [1 \<mapsto> alice] 0 1 ''pw''
     = Inr \<lparr>access_token =
              Jws ''secret'' [(''sub'', JStr ''alice''), (''req_count'', JInt 0), (''exp'', JInt 900)],
            refresh_token =
              Jws ''secret'' [(''sub'', JStr ''alice''), (''req_count'', JInt 0), (''exp'', JInt 604800)],
            token_type = ''JWT''\<rparr>
   \<and> get_current_user example_config [1 \<mapsto> alice] (seconds 60)
        (Jws ''secret'' [(''sub'', JStr ''alice''), (''req_count'', JInt 0), (''exp'', JInt 900)])
        (Jws ''secret'' [(''sub'', JStr ''alice''), (''req_count'', JInt 0), (''exp'', JInt 604800)])
     = (Inl ValueError, [DecodeAccessToken])"
  by (simp add: authenticate_user_def example_verify_password_def alice_def
      example_config_def create_access_token_def create_refresh_token_def jwt_encode_def
      timegm_def minutes_def days_def seconds_def Let_def
      get_current_user_def resolve_user_def int_of_jval_def py_int_of_str_alice
      jwt_decode_def exp_valid_def sub_valid_def dict_get_def falsy_def req_count_exceeds_def)

text \<open>
  With \<open>RATE_LIMIT\<close> unbound, as shipped, the same pair fails one step earlier with
  \<open>NameError\<close> while the access token is valid, and with the \<open>ValueError\<close> of
  \<open>int('alice')\<close> once it has expired and the refresh token is used: the pair never
  resolves to the user.
\<close>

lemma issue_then_validate_as_shipped:
  "authenticate_user example_verify_password shipped_config [1 \<mapsto> alice] 0 1 ''pw''
     = Inr \<lparr>access_token =
              Jws ''secret'' [(''sub'', JStr ''alice''), (''req_count'', JInt 0), (''exp'', JInt 900)],
            refresh_token =
              Jws ''secret'' [(''sub'', JStr ''alice''), (''req_count'', JInt 0), (''exp'', JInt 604800)],
            token_type = ''JWT''\<rparr>
   \<and> get_current_user shipped_config [1 \<mapsto> alice] (seconds 60)
        (Jws ''secret'' [(''sub'', JStr ''alice''), (''req_count'', JInt 0), (''exp'', JInt 900)])
        (Jws ''secret'' [(''sub'', JStr ''alice''), (''req_count'', JInt 0), (''exp'', JInt 604800)])
     = (Inl NameError, [DecodeAccessToken])
   \<and> get_current_user shipped_config [1 \<mapsto> alice] (seconds 1000)
        (Jws ''secret'' [(''sub'', JStr ''alice''), (''req_count'', JInt 0), (''exp'', JInt 900)])
        (Jws ''secret'' [(''sub'', JStr ''alice''), (''req_count'', JInt 0), (''exp'', JInt 604800)])
     = (Inl ValueError,
        [DecodeAccessToken, DecodeRefreshToken,
         CreateAccessToken [(''sub'', JStr ''alice'')]
           (Jws ''secret'' [(''sub'', JStr ''alice''), (''exp'', JInt 1900)])])"
  by (simp add: authenticate_user_def example_verify_password_def alice_def
      shipped_config_def create_access_token_def create_refresh_token_def jwt_encode_def
      timegm_def minutes_def days_def seconds_def Let_def
      get_current_user_def resolve_user_def int_of_jval_def py_int_of_str_alice
      jwt_decode_def exp_valid_def sub_valid_def dict_get_def falsy_def req_count_exceeds_def)

text \<open>
  When the username reads as a number, the pair resolves to whoever is stored under that
  number: the pair issued to the user of key 1, whose username is \<open>0007\<close>, resolves to
  the user of key 7.
\<close>

lemma issue_then_validate_resolves_other_user:
  "authenticate_user example_verify_password example_config
      [1 \<mapsto> \<lparr>userId = 1, username = ''0007'', hashed_password = ''hash:pw''\<rparr>, 7 \<mapsto> example_user]
      0 1 ''pw''
     = Inr \<lparr>access_token = example_access_token, refresh_token = example_refresh_token,
            token_type = ''JWT''\<rparr>
   \<and> fst (get_current_user example_config
      [1 \<mapsto> \<lparr>userId = 1, username = ''0007'', hashed_password = ''hash:pw''\<rparr>, 7 \<mapsto> example_user]
      (seconds 60) example_access_token example_refresh_token)
     = Inr \<lparr>db_user = example_user\<rparr>"
  by (simp add: authenticate_user_def example_verify_password_def example_user_def
      example_config_def create_access_token_def create_refresh_token_def jwt_encode_def
      example_access_token_def example_refresh_token_def
      timegm_def minutes_def days_def seconds_def Let_def
      get_current_user_def resolve_user_def int_of_jval_def py_int_of_str_0007
      jwt_decode_def exp_valid_def sub_valid_def dict_get_def falsy_def req_count_exceeds_def)

text \<open>
  The round trip holds where \<open>RATE_LIMIT\<close> is bound, for the users whose username reads
  as their own key.
\<close>

lemma issue_then_validate_roundtrip:
  assumes login: "authenticate_user verify_password cfg session now user_id password = Inr t"
    and user: "session user_id = Some user"
    and numeric: "py_int_of_str (username user) = Some user_id"
    and ceiling: "JWT_RATE_LIMIT cfg = Some ceiling" "0 \<le> ceiling"
    and fresh: "timegm now' \<le> timegm (now + minutes (ACCESS_TOKEN_EXPIRE_MINUTES cfg))"
  shows "get_current_user cfg session now' (access_token t) (refresh_token t)
           = (Inr \<lparr>db_user = user\<rparr>, [DecodeAccessToken, SessionGet user_id])"
proof -
  from login_access_token [OF login] user
  have a: "access_token t = Jws (SECRET_KEY cfg)
               [(''sub'', JStr (username user)), (''req_count'', JInt 0),
                (''exp'', JInt (timegm (now + minutes (ACCESS_TOKEN_EXPIRE_MINUTES cfg))))]"
    and r: "refresh_token t = Jws (SECRET_KEY cfg)
               [(''sub'', JStr (username user)), (''req_count'', JInt 0),
                (''exp'', JInt (timegm (now + days (REFRESH_TOKEN_EXPIRE_DAYS cfg))))]"
    by auto
  show ?thesis
    using user numeric ceiling fresh
    by (simp add: a r get_current_user_def resolve_user_def int_of_jval_def jwt_decode_def
        exp_valid_def sub_valid_def dict_get_def falsy_def req_count_exceeds_def Let_def)
qed

end
